theory Spec2Isabelle
  imports Main "HOL-Library.Word"
begin

section \<open>The IdentityVerification contract (contracts/Identity.sol)\<close>

text \<open>
  A shallow embedding of the Solidity contract \<open>IdentityVerification\<close>. An \<open>address\<close> is a
  160-bit word and a Solidity \<open>string\<close> is a list of 8-bit characters. The storage of the
  contract is the mapping \<open>identities\<close>; a Solidity mapping is total, every key that was
  never written reads as the zero value of the struct. The events that the contract emits
  are kept in a list, the oldest first. A \<open>require\<close> that fails reverts the call: the
  function returns \<open>Inl\<close> of the revert reason and produces no successor state.
\<close>

subsection \<open>Data\<close>

type_synonym address = "160 word"

record Identity =
  user :: address
  name :: string
  email :: string
  isVerified :: bool
  exists :: bool

datatype event =
    IdentityAdded address string string
  | IdentityUpdated address string string
  | IdentityDeleted address
  | IdentityVerified address
  | IdentityRevoked address
  | IdentityActionLogged string

datatype error = Revert string

record contract =
  identities :: "address \<Rightarrow> Identity"
  events :: "event list"

text \<open>The zero value of the struct: what an unwritten slot holds and what \<open>delete\<close> stores.\<close>

definition zero_Identity :: Identity where
  "zero_Identity = \<lparr>user = 0, name = [], email = [], isVerified = False, exists = False\<rparr>"

text \<open>The contract right after deployment: empty storage, nothing emitted.\<close>

definition deployed :: contract where
  "deployed = \<lparr>identities = (\<lambda>_. zero_Identity), events = []\<rparr>"

text \<open>The two revert reasons of the contract, under the names the specification uses.\<close>

definition AlreadyExists :: error where
  "AlreadyExists = Revert ''Identity already exists''"

definition NotFound :: error where
  "NotFound = Revert ''Identity does not exist''"

subsection \<open>Operations\<close>

definition emit :: "event \<Rightarrow> contract \<Rightarrow> contract" where
  "emit e s = s\<lparr>events := events s @ [e]\<rparr>"

definition logIdentityAction :: "string \<Rightarrow> contract \<Rightarrow> contract" where
  "logIdentityAction action s = emit (IdentityActionLogged action) s"

definition addIdentity :: "address \<Rightarrow> string \<Rightarrow> string \<Rightarrow> contract \<Rightarrow> error + contract" where
  "addIdentity sender n e s =
     (if \<not> \<not> exists (identities s sender) then Inl (Revert ''Identity already exists'')
      else
        let s1 = s\<lparr>identities := (identities s)(sender :=
                    \<lparr>user = sender, name = n, email = e, isVerified = False, exists = True\<rparr>)\<rparr>;
            s2 = emit (IdentityAdded sender n e) s1
        in Inr (logIdentityAction ''Identity Added'' s2))"

definition updateIdentity :: "address \<Rightarrow> string \<Rightarrow> string \<Rightarrow> contract \<Rightarrow> error + contract" where
  "updateIdentity sender n e s =
     (if \<not> exists (identities s sender) then Inl (Revert ''Identity does not exist'')
      else
        let s1 = s\<lparr>identities := (identities s)(sender := (identities s sender)\<lparr>name := n\<rparr>)\<rparr>;
            s2 = s1\<lparr>identities := (identities s1)(sender := (identities s1 sender)\<lparr>email := e\<rparr>)\<rparr>;
            s3 = emit (IdentityUpdated sender n e) s2
        in Inr (logIdentityAction ''Identity Updated'' s3))"

definition deleteIdentity :: "address \<Rightarrow> contract \<Rightarrow> error + contract" where
  "deleteIdentity sender s =
     (if \<not> exists (identities s sender) then Inl (Revert ''Identity does not exist'')
      else
        let s1 = s\<lparr>identities := (identities s)(sender := zero_Identity)\<rparr>;
            s2 = emit (IdentityDeleted sender) s1
        in Inr (logIdentityAction ''Identity Deleted'' s2))"

definition verifyIdentity :: "address \<Rightarrow> contract \<Rightarrow> error + contract" where
  "verifyIdentity sender s =
     (if \<not> exists (identities s sender) then Inl (Revert ''Identity does not exist'')
      else
        let s1 = s\<lparr>identities := (identities s)(sender := (identities s sender)\<lparr>isVerified := True\<rparr>)\<rparr>;
            s2 = emit (IdentityVerified sender) s1
        in Inr (logIdentityAction ''Identity Verified'' s2))"

definition revokeIdentity :: "address \<Rightarrow> contract \<Rightarrow> error + contract" where
  "revokeIdentity sender s =
     (if \<not> exists (identities s sender) then Inl (Revert ''Identity does not exist'')
      else
        let s1 = s\<lparr>identities := (identities s)(sender := (identities s sender)\<lparr>isVerified := False\<rparr>)\<rparr>;
            s2 = emit (IdentityRevoked sender) s1
        in Inr (logIdentityAction ''Identity Revoked'' s2))"

definition getIdentity :: "contract \<Rightarrow> address \<Rightarrow> error + Identity" where
  "getIdentity s u =
     (if \<not> exists (identities s u) then Inl (Revert ''Identity does not exist'')
      else Inr (identities s u))"

definition isIdentityVerified :: "contract \<Rightarrow> address \<Rightarrow> error + bool" where
  "isIdentityVerified s u =
     (if \<not> exists (identities s u) then Inl (Revert ''Identity does not exist'')
      else Inr (isVerified (identities s u)))"

text \<open>
  The getter that the compiler generates for \<open>mapping(address => Identity) public identities\<close>:
  it has no \<open>require\<close> and returns the members of the stored struct as a tuple.
\<close>

definition identities_getter ::
  "contract \<Rightarrow> address \<Rightarrow> error + (address \<times> string \<times> string \<times> bool \<times> bool)" where
  "identities_getter s u =
     (let r = identities s u in Inr (user r, name r, email r, isVerified r, exists r))"

subsection \<open>Transactions\<close>

text \<open>
  The five state-changing functions of the ABI. A transaction is a sender (\<open>msg.sender\<close>)
  and a call; a reverted transaction leaves the contract as it was, events included.
\<close>

datatype call =
    AddIdentity string string
  | UpdateIdentity string string
  | DeleteIdentity
  | VerifyIdentity
  | RevokeIdentity

fun dispatch :: "address \<Rightarrow> call \<Rightarrow> contract \<Rightarrow> error + contract" where
  "dispatch sender (AddIdentity n e) s = addIdentity sender n e s"
| "dispatch sender (UpdateIdentity n e) s = updateIdentity sender n e s"
| "dispatch sender DeleteIdentity s = deleteIdentity sender s"
| "dispatch sender VerifyIdentity s = verifyIdentity sender s"
| "dispatch sender RevokeIdentity s = revokeIdentity sender s"

definition transact :: "address \<Rightarrow> call \<Rightarrow> contract \<Rightarrow> contract" where
  "transact sender c s = (case dispatch sender c s of Inl _ \<Rightarrow> s | Inr s' \<Rightarrow> s')"

fun run :: "(address \<times> call) list \<Rightarrow> contract \<Rightarrow> contract" where
  "run [] s = s"
| "run ((sender, c) # txs) s = run txs (transact sender c s)"

text \<open>The states the deployed contract can be in: those a sequence of successful calls leads to.\<close>

inductive reachable :: "contract \<Rightarrow> bool" where
  reachable_deployed: "reachable deployed"
| reachable_call: "reachable s \<Longrightarrow> dispatch sender c s = Inr s' \<Longrightarrow> reachable s'"

subsection \<open>Invariants\<close>

definition verified_exists :: "contract \<Rightarrow> bool" where
  "verified_exists s = (\<forall>p. isVerified (identities s p) \<longrightarrow> exists (identities s p))"


definition absent_zero :: "contract \<Rightarrow> bool" where
  "absent_zero s = (\<forall>p. \<not> exists (identities s p) \<longrightarrow> identities s p = zero_Identity)"

subsection \<open>Example transactions\<close>

text \<open>Two senders and the states that a few transactions of theirs lead to.\<close>

definition alice :: address where
  "alice = 1"

definition bob :: address where
  "bob = 2"

definition registered :: contract where
  "registered = run [(alice, AddIdentity ''Alice'' ''alice@example.com'')] deployed"

definition verified :: contract where
  "verified = run [(alice, VerifyIdentity)] registered"

definition both :: contract where
  "both = run [(bob, AddIdentity ''Bob'' ''bob@example.com'')] verified"

definition deleted :: contract where
  "deleted = run [(alice, DeleteIdentity)] verified"

section \<open>Properties\<close>

lemmas op_defs =
  addIdentity_def updateIdentity_def deleteIdentity_def verifyIdentity_def
  revokeIdentity_def emit_def logIdentityAction_def Let_def

lemma reachable_transact: "reachable s \<Longrightarrow> reachable (transact sender c s)"
  by (cases "dispatch sender c s") (auto simp: transact_def intro: reachable_call)

lemma reachable_run: "reachable s \<Longrightarrow> reachable (run txs s)"
  by (induction txs arbitrary: s) (auto simp: reachable_transact)

lemma verified_exists_dispatch:
  "verified_exists s \<Longrightarrow> dispatch sender c s = Inr s' \<Longrightarrow> verified_exists s'"
  by (cases c) (auto simp: verified_exists_def op_defs zero_Identity_def split: if_splits)

lemma verified_exists_reachable: "reachable s \<Longrightarrow> verified_exists s"
proof (induction rule: reachable.induct)
  case reachable_deployed
  show ?case by (simp add: verified_exists_def deployed_def zero_Identity_def)
next
  case (reachable_call s sender c s')
  then show ?case by (blast intro: verified_exists_dispatch)
qed




lemma absent_zero_dispatch:
  "absent_zero s \<Longrightarrow> dispatch sender c s = Inr s' \<Longrightarrow> absent_zero s'"
proof -
  assume inv: "absent_zero s" and step: "dispatch sender c s = Inr s'"
  have other: "identities s' p = identities s p" if "p \<noteq> sender" for p
    using step that by (cases c) (auto simp: op_defs split: if_splits)
  have own: "exists (identities s' sender) \<or> identities s' sender = zero_Identity"
    using step by (cases c) (auto simp: op_defs split: if_splits)
  show "absent_zero s'"
    unfolding absent_zero_def
  proof (intro allI impI)
    fix p
    assume a: "\<not> exists (identities s' p)"
    show "identities s' p = zero_Identity"
    proof (cases "p = sender")
      case True
      with a own show ?thesis by simp
    next
      case False
      with a other [OF False] inv show ?thesis by (simp add: absent_zero_def)
    qed
  qed
qed

lemma absent_zero_reachable: "reachable s \<Longrightarrow> absent_zero s"
proof (induction rule: reachable.induct)
  case reachable_deployed
  show ?case by (simp add: absent_zero_def deployed_def)
next
  case (reachable_call s sender c s')
  then show ?case by (blast intro: absent_zero_dispatch)
qed

subsection \<open>The example states, computed\<close>

lemma alice_neq_bob: "alice \<noteq> bob" "bob \<noteq> alice"
  by (simp_all add: alice_def bob_def)

lemma registered_eq:
  "registered = \<lparr>identities = (\<lambda>_. zero_Identity)(alice :=
       \<lparr>user = alice, name = ''Alice'', email = ''alice@example.com'',
        isVerified = False, exists = True\<rparr>),
     events = [IdentityAdded alice ''Alice'' ''alice@example.com'',
               IdentityActionLogged ''Identity Added'']\<rparr>"
  by (simp add: registered_def transact_def op_defs deployed_def zero_Identity_def)

lemma verified_eq:
  "verified = \<lparr>identities = (\<lambda>_. zero_Identity)(alice :=
       \<lparr>user = alice, name = ''Alice'', email = ''alice@example.com'',
        isVerified = True, exists = True\<rparr>),
     events = [IdentityAdded alice ''Alice'' ''alice@example.com'',
               IdentityActionLogged ''Identity Added'',
               IdentityVerified alice, IdentityActionLogged ''Identity Verified'']\<rparr>"
  by (simp add: verified_def registered_eq transact_def op_defs)

lemma both_eq:
  "both = \<lparr>identities = (\<lambda>_. zero_Identity)(alice :=
       \<lparr>user = alice, name = ''Alice'', email = ''alice@example.com'',
        isVerified = True, exists = True\<rparr>, bob :=
       \<lparr>user = bob, name = ''Bob'', email = ''bob@example.com'',
        isVerified = False, exists = True\<rparr>),
     events = [IdentityAdded alice ''Alice'' ''alice@example.com'',
               IdentityActionLogged ''Identity Added'',
               IdentityVerified alice, IdentityActionLogged ''Identity Verified'',
               IdentityAdded bob ''Bob'' ''bob@example.com'',
               IdentityActionLogged ''Identity Added'']\<rparr>"
  by (simp add: both_def verified_eq transact_def op_defs alice_neq_bob zero_Identity_def)

lemma deleted_eq:
  "deleted = \<lparr>identities = (\<lambda>_. zero_Identity),
     events = [IdentityAdded alice ''Alice'' ''alice@example.com'',
               IdentityActionLogged ''Identity Added'',
               IdentityVerified alice, IdentityActionLogged ''Identity Verified'',
               IdentityDeleted alice, IdentityActionLogged ''Identity Deleted'']\<rparr>"
  by (simp add: deleted_def verified_eq transact_def op_defs fun_eq_iff)

lemma reachable_examples:
  "reachable registered" "reachable verified" "reachable both" "reachable deleted"
proof -
  show r: "reachable registered"
    unfolding registered_def by (rule reachable_run) (rule reachable_deployed)
  show v: "reachable verified"
    unfolding verified_def by (rule reachable_run) (rule r)
  show "reachable both"
    unfolding both_def by (rule reachable_run) (rule v)
  show "reachable deleted"
    unfolding deleted_def by (rule reachable_run) (rule v)
qed

subsection \<open>Invariant: a verified record is a live record\<close>

text \<open>
  C1. In every reachable state of the registry and for every principal \<open>p\<close>, the stored
  record of \<open>p\<close> has \<open>exists = true\<close> whenever it has \<open>isVerified = true\<close>; and each of
  \<open>addIdentity\<close>, \<open>updateIdentity\<close>, \<open>deleteIdentity\<close>, \<open>verifyIdentity\<close> and
  \<open>revokeIdentity\<close>, called by any sender \<open>q\<close>, preserves this predicate.
\<close>

theorem verified_implies_exists:
  "(reachable s \<longrightarrow> isVerified (identities s p) \<longrightarrow> exists (identities s p)) \<and>
   (verified_exists s \<longrightarrow>
      (\<forall>s'. addIdentity q n e s = Inr s' \<longrightarrow> verified_exists s') \<and>
      (\<forall>s'. updateIdentity q n e s = Inr s' \<longrightarrow> verified_exists s') \<and>
      (\<forall>s'. deleteIdentity q s = Inr s' \<longrightarrow> verified_exists s') \<and>
      (\<forall>s'. verifyIdentity q s = Inr s' \<longrightarrow> verified_exists s') \<and>
      (\<forall>s'. revokeIdentity q s = Inr s' \<longrightarrow> verified_exists s'))"
proof -
  have inv: "reachable s \<longrightarrow> isVerified (identities s p) \<longrightarrow> exists (identities s p)"
    using verified_exists_reachable [of s] by (simp add: verified_exists_def)
  have pres: "verified_exists s'" if "verified_exists s" and "dispatch q c s = Inr s'" for c s'
    using that by (rule verified_exists_dispatch)
  have "verified_exists s'" if "verified_exists s" and "addIdentity q n e s = Inr s'" for s'
    using that pres [of "AddIdentity n e" s'] by simp
  moreover
  have "verified_exists s'" if "verified_exists s" and "updateIdentity q n e s = Inr s'" for s'
    using that pres [of "UpdateIdentity n e" s'] by simp
  moreover
  have "verified_exists s'" if "verified_exists s" and "deleteIdentity q s = Inr s'" for s'
    using that pres [of DeleteIdentity s'] by simp
  moreover
  have "verified_exists s'" if "verified_exists s" and "verifyIdentity q s = Inr s'" for s'
    using that pres [of VerifyIdentity s'] by simp
  moreover
  have "verified_exists s'" if "verified_exists s" and "revokeIdentity q s = Inr s'" for s'
    using that pres [of RevokeIdentity s'] by simp
  ultimately show ?thesis
    using inv by blast
qed

theorem verified_implies_exists_witness:
  "reachable verified \<and> isVerified (identities verified alice) \<and>
   exists (identities verified alice) \<and> verified_exists verified \<and>
   (\<exists>s'. addIdentity bob ''Bob'' ''bob@example.com'' verified = Inr s' \<and> verified_exists s') \<and>
   (\<exists>s'. updateIdentity alice ''Alice2'' ''a2@example.com'' verified = Inr s' \<and>
         verified_exists s') \<and>
   (\<exists>s'. deleteIdentity alice verified = Inr s' \<and> verified_exists s') \<and>
   (\<exists>s'. verifyIdentity alice verified = Inr s' \<and> verified_exists s') \<and>
   (\<exists>s'. revokeIdentity alice verified = Inr s' \<and> verified_exists s')"
proof -
  have r: "reachable verified" by (rule reachable_examples)
  have v: "isVerified (identities verified alice)" by (simp add: verified_eq)
  have inv: "verified_exists verified" using r by (rule verified_exists_reachable)
  note bob_calls =
    verified_implies_exists [of verified alice bob "''Bob''" "''bob@example.com''"]
  note alice_calls =
    verified_implies_exists [of verified alice alice "''Alice2''" "''a2@example.com''"]
  have e: "exists (identities verified alice)"
    using alice_calls r v by blast
  obtain sa where a: "addIdentity bob ''Bob'' ''bob@example.com'' verified = Inr sa"
    by (simp add: op_defs verified_eq alice_neq_bob zero_Identity_def)
  obtain su where u: "updateIdentity alice ''Alice2'' ''a2@example.com'' verified = Inr su"
    by (simp add: op_defs verified_eq)
  obtain sd where d: "deleteIdentity alice verified = Inr sd"
    by (simp add: op_defs verified_eq)
  obtain sv where w: "verifyIdentity alice verified = Inr sv"
    by (simp add: op_defs verified_eq)
  obtain sr where k: "revokeIdentity alice verified = Inr sr"
    by (simp add: op_defs verified_eq)
  have "verified_exists sa" using bob_calls inv a by blast
  moreover have "verified_exists su" using alice_calls inv u by blast
  moreover have "verified_exists sd" using alice_calls inv d by blast
  moreover have "verified_exists sv" using alice_calls inv w by blast
  moreover have "verified_exists sr" using alice_calls inv k by blast
  ultimately show ?thesis
    using r v e inv a u d w k by blast
qed


subsection \<open>Failures\<close>

text \<open>
  C2. For every state and caller \<open>p\<close>: \<open>updateIdentity\<close>, \<open>deleteIdentity\<close>,
  \<open>verifyIdentity\<close> and \<open>revokeIdentity\<close> called by \<open>p\<close> fail with \<open>NotFound\<close> exactly when
  the record of \<open>p\<close> has \<open>exists = false\<close>, and succeed otherwise; \<open>addIdentity\<close> called by
  \<open>p\<close> fails with \<open>AlreadyExists\<close> exactly when the record of \<open>p\<close> has \<open>exists = true\<close>, and
  succeeds otherwise. A failed call leaves the whole contract as it was: the storage is
  unchanged and no event is appended.
\<close>

theorem failure_conditions:
  "(updateIdentity p n e s = Inl NotFound) = (\<not> exists (identities s p)) \<and>
   (deleteIdentity p s = Inl NotFound) = (\<not> exists (identities s p)) \<and>
   (verifyIdentity p s = Inl NotFound) = (\<not> exists (identities s p)) \<and>
   (revokeIdentity p s = Inl NotFound) = (\<not> exists (identities s p)) \<and>
   (addIdentity p n e s = Inl AlreadyExists) = exists (identities s p) \<and>
   (\<exists>s'. updateIdentity p n e s = Inr s') = exists (identities s p) \<and>
   (\<exists>s'. deleteIdentity p s = Inr s') = exists (identities s p) \<and>
   (\<exists>s'. verifyIdentity p s = Inr s') = exists (identities s p) \<and>
   (\<exists>s'. revokeIdentity p s = Inr s') = exists (identities s p) \<and>
   (\<exists>s'. addIdentity p n e s = Inr s') = (\<not> exists (identities s p)) \<and>
   (\<forall>c err. dispatch p c s = Inl err \<longrightarrow>
      transact p c s = s \<and> identities (transact p c s) = identities s \<and>
      events (transact p c s) = events s)"
  by (simp add: op_defs NotFound_def AlreadyExists_def transact_def)

theorem failure_conditions_witness:
  "\<not> exists (identities registered bob) \<and> exists (identities registered alice) \<and>
   updateIdentity bob ''Bob'' ''bob@example.com'' registered = Inl NotFound \<and>
   deleteIdentity bob registered = Inl NotFound \<and>
   verifyIdentity bob registered = Inl NotFound \<and>
   revokeIdentity bob registered = Inl NotFound \<and>
   addIdentity alice ''Alice'' ''alice@example.com'' registered = Inl AlreadyExists \<and>
   dispatch bob DeleteIdentity registered = Inl NotFound \<and>
   transact bob DeleteIdentity registered = registered \<and>
   events (transact bob DeleteIdentity registered) = events registered"
proof -
  have b: "\<not> exists (identities registered bob)"
    by (simp add: registered_eq alice_neq_bob zero_Identity_def)
  have a: "exists (identities registered alice)"
    by (simp add: registered_eq)
  show ?thesis
    using a b
      failure_conditions [of bob "''Bob''" "''bob@example.com''" registered]
      failure_conditions [of alice "''Alice''" "''alice@example.com''" registered]
    by simp
qed

subsection \<open>Creating a record\<close>

text \<open>
  C3. For every caller \<open>p\<close> whose record has \<open>exists = false\<close>, \<open>addIdentity(name, email)\<close>
  by \<open>p\<close> succeeds, and afterwards the record of \<open>p\<close> is exactly
  \<open>{user: p, name, email, isVerified: false, exists: true}\<close>; right after it
  \<open>getIdentity(p)\<close> succeeds with that record (\<open>exists = true\<close>, \<open>isVerified = false\<close>) and
  \<open>isIdentityVerified(p)\<close> returns false.
\<close>

theorem addIdentity_creates:
  "\<not> exists (identities s p) \<Longrightarrow>
   \<exists>s'. addIdentity p n e s = Inr s' \<and>
        identities s' p = \<lparr>user = p, name = n, email = e, isVerified = False, exists = True\<rparr> \<and>
        getIdentity s' p =
          Inr \<lparr>user = p, name = n, email = e, isVerified = False, exists = True\<rparr> \<and>
        (\<exists>r. getIdentity s' p = Inr r \<and> exists r \<and> \<not> isVerified r) \<and>
        isIdentityVerified s' p = Inr False"
  by (simp add: op_defs getIdentity_def isIdentityVerified_def)

theorem addIdentity_creates_witness:
  "\<not> exists (identities deployed alice) \<and>
   (\<exists>s'. addIdentity alice ''Alice'' ''alice@example.com'' deployed = Inr s' \<and>
        identities s' alice =
          \<lparr>user = alice, name = ''Alice'', email = ''alice@example.com'',
           isVerified = False, exists = True\<rparr> \<and>
        getIdentity s' alice =
          Inr \<lparr>user = alice, name = ''Alice'', email = ''alice@example.com'',
               isVerified = False, exists = True\<rparr> \<and>
        (\<exists>r. getIdentity s' alice = Inr r \<and> exists r \<and> \<not> isVerified r) \<and>
        isIdentityVerified s' alice = Inr False)"
proof -
  have h: "\<not> exists (identities deployed alice)"
    by (simp add: deployed_def zero_Identity_def)
  show ?thesis
    using h addIdentity_creates [OF h, of "''Alice''" "''alice@example.com''"] by simp
qed

subsection \<open>Updating a record\<close>

text \<open>
  C4. For every caller \<open>p\<close> whose record has \<open>exists = true\<close>, \<open>updateIdentity(name, email)\<close>
  by \<open>p\<close> succeeds; the record of \<open>p\<close> afterwards is the old one with \<open>name\<close> and \<open>email\<close>
  overwritten, so \<open>isVerified\<close>, \<open>exists\<close> and \<open>user\<close> keep their values. In particular,
  when the state before the update is the result of a \<open>verifyIdentity\<close> by \<open>p\<close>, the
  record is still verified after the update.
\<close>

theorem updateIdentity_frame:
  "exists (identities s p) \<Longrightarrow>
   \<exists>s'. updateIdentity p n e s = Inr s' \<and>
        identities s' p = (identities s p)\<lparr>name := n, email := e\<rparr> \<and>
        name (identities s' p) = n \<and>
        email (identities s' p) = e \<and>
        isVerified (identities s' p) = isVerified (identities s p) \<and>
        exists (identities s' p) = exists (identities s p) \<and>
        user (identities s' p) = user (identities s p) \<and>
        (\<forall>s0. verifyIdentity p s0 = Inr s \<longrightarrow> isVerified (identities s' p) = True)"
  by (auto simp: op_defs split: if_splits)

theorem updateIdentity_frame_witness:
  "exists (identities verified alice) \<and>
   verifyIdentity alice registered = Inr verified \<and>
   (\<exists>s'. updateIdentity alice ''Alice2'' ''a2@example.com'' verified = Inr s' \<and>
        identities s' alice =
          \<lparr>user = alice, name = ''Alice2'', email = ''a2@example.com'',
           isVerified = True, exists = True\<rparr> \<and>
        isVerified (identities s' alice) = True)"
proof -
  have h: "exists (identities verified alice)"
    by (simp add: verified_eq)
  have v: "verifyIdentity alice registered = Inr verified"
    by (simp add: op_defs verified_eq registered_eq)
  have r: "(identities verified alice)\<lparr>name := ''Alice2'', email := ''a2@example.com''\<rparr> =
      \<lparr>user = alice, name = ''Alice2'', email = ''a2@example.com'',
       isVerified = True, exists = True\<rparr>"
    by (simp add: verified_eq)
  obtain s' where
    "updateIdentity alice ''Alice2'' ''a2@example.com'' verified = Inr s'"
    "identities s' alice =
       (identities verified alice)\<lparr>name := ''Alice2'', email := ''a2@example.com''\<rparr>"
    "\<forall>s0. verifyIdentity alice s0 = Inr verified \<longrightarrow> isVerified (identities s' alice) = True"
    using updateIdentity_frame [OF h, of "''Alice2''" "''a2@example.com''"] by blast
  with h v r show ?thesis by metis
qed

subsection \<open>Only the caller's record changes\<close>

text \<open>
  C5. For distinct principals \<open>p\<close> and \<open>q\<close>, every operation called by \<open>q\<close>
  (\<open>addIdentity\<close>, \<open>updateIdentity\<close>, \<open>deleteIdentity\<close>, \<open>verifyIdentity\<close>,
  \<open>revokeIdentity\<close>) leaves the record of \<open>p\<close> as it was, whether the call succeeds or
  reverts: a record is created, edited and deleted by its owner only.
\<close>

theorem other_records_unchanged:
  "p \<noteq> q \<Longrightarrow>
   (\<forall>s'. addIdentity q n e s = Inr s' \<longrightarrow> identities s' p = identities s p) \<and>
   (\<forall>s'. updateIdentity q n e s = Inr s' \<longrightarrow> identities s' p = identities s p) \<and>
   (\<forall>s'. deleteIdentity q s = Inr s' \<longrightarrow> identities s' p = identities s p) \<and>
   (\<forall>s'. verifyIdentity q s = Inr s' \<longrightarrow> identities s' p = identities s p) \<and>
   (\<forall>s'. revokeIdentity q s = Inr s' \<longrightarrow> identities s' p = identities s p) \<and>
   (\<forall>c. identities (transact q c s) p = identities s p)"
proof -
  assume neq: "p \<noteq> q"
  have step: "identities s' p = identities s p" if "dispatch q c s = Inr s'" for c s'
    using that neq by (cases c) (auto simp: op_defs split: if_splits)
  have "identities (transact q c s) p = identities s p" for c
    using step [of c] by (cases "dispatch q c s") (simp_all add: transact_def)
  then show ?thesis
    using step [of "AddIdentity n e"] step [of "UpdateIdentity n e"] step [of DeleteIdentity]
      step [of VerifyIdentity] step [of RevokeIdentity]
    by simp
qed

theorem other_records_unchanged_witness:
  "alice \<noteq> bob \<and>
   (\<exists>s'. addIdentity bob ''Bob'' ''bob@example.com'' verified = Inr s' \<and>
         identities s' alice = identities verified alice) \<and>
   (\<exists>s'. updateIdentity bob ''Bob2'' ''b2@example.com'' both = Inr s' \<and>
         identities s' alice = identities both alice) \<and>
   (\<exists>s'. deleteIdentity bob both = Inr s' \<and> identities s' alice = identities both alice) \<and>
   (\<exists>s'. verifyIdentity bob both = Inr s' \<and> identities s' alice = identities both alice) \<and>
   (\<exists>s'. revokeIdentity bob both = Inr s' \<and> identities s' alice = identities both alice) \<and>
   identities (transact bob DeleteIdentity verified) alice = identities verified alice"
proof -
  have neq: "alice \<noteq> bob" by (rule alice_neq_bob)
  note in_verified =
    other_records_unchanged [OF neq, of "''Bob''" "''bob@example.com''" verified]
  note in_both =
    other_records_unchanged [OF neq, of "''Bob2''" "''b2@example.com''" both]
  obtain sa where a: "addIdentity bob ''Bob'' ''bob@example.com'' verified = Inr sa"
    by (simp add: op_defs verified_eq alice_neq_bob zero_Identity_def)
  obtain su where u: "updateIdentity bob ''Bob2'' ''b2@example.com'' both = Inr su"
    by (simp add: op_defs both_eq)
  obtain sd where d: "deleteIdentity bob both = Inr sd"
    by (simp add: op_defs both_eq)
  obtain sv where w: "verifyIdentity bob both = Inr sv"
    by (simp add: op_defs both_eq)
  obtain sr where k: "revokeIdentity bob both = Inr sr"
    by (simp add: op_defs both_eq)
  have "identities sa alice = identities verified alice" using in_verified a by blast
  moreover have "identities su alice = identities both alice" using in_both u by blast
  moreover have "identities sd alice = identities both alice" using in_both d by blast
  moreover have "identities sv alice = identities both alice" using in_both w by blast
  moreover have "identities sr alice = identities both alice" using in_both k by blast
  moreover have "identities (transact bob DeleteIdentity verified) alice = identities verified alice"
    using in_verified by blast
  ultimately show ?thesis
    using neq a u d w k by blast
qed

subsection \<open>Events\<close>

text \<open>
  C6. Every successful mutating operation appends exactly two events to the log, after the
  events of all earlier calls: first the specific one (\<open>IdentityAdded\<close> and
  \<open>IdentityUpdated\<close> with the caller, the name and the email, \<open>IdentityDeleted\<close>,
  \<open>IdentityVerified\<close> and \<open>IdentityRevoked\<close> with the caller), then one
  \<open>IdentityActionLogged\<close> that carries the name of the action only. The log append comes
  after the state mutation: the result of the call is \<open>logIdentityAction\<close> after \<open>emit\<close>
  applied to the state in which the record of the caller is already written (created,
  edited, reset, verified or revoked) and the log is still the one before the call. A
  transaction that fails appends no event.
\<close>

theorem events_of_calls:
  "(\<forall>s'. addIdentity p n e s = Inr s' \<longrightarrow>
      s' = logIdentityAction ''Identity Added'' (emit (IdentityAdded p n e)
             (s\<lparr>identities := (identities s)(p :=
                 \<lparr>user = p, name = n, email = e, isVerified = False, exists = True\<rparr>)\<rparr>)) \<and>
      identities s' = (identities s)(p :=
          \<lparr>user = p, name = n, email = e, isVerified = False, exists = True\<rparr>) \<and>
      events s' = events s @ [IdentityAdded p n e, IdentityActionLogged ''Identity Added'']) \<and>
   (\<forall>s'. updateIdentity p n e s = Inr s' \<longrightarrow>
      s' = logIdentityAction ''Identity Updated'' (emit (IdentityUpdated p n e)
             (s\<lparr>identities := (identities s)(p :=
                 (identities s p)\<lparr>name := n, email := e\<rparr>)\<rparr>)) \<and>
      identities s' = (identities s)(p := (identities s p)\<lparr>name := n, email := e\<rparr>) \<and>
      events s' = events s @ [IdentityUpdated p n e, IdentityActionLogged ''Identity Updated'']) \<and>
   (\<forall>s'. deleteIdentity p s = Inr s' \<longrightarrow>
      s' = logIdentityAction ''Identity Deleted'' (emit (IdentityDeleted p)
             (s\<lparr>identities := (identities s)(p := zero_Identity)\<rparr>)) \<and>
      identities s' = (identities s)(p := zero_Identity) \<and>
      events s' = events s @ [IdentityDeleted p, IdentityActionLogged ''Identity Deleted'']) \<and>
   (\<forall>s'. verifyIdentity p s = Inr s' \<longrightarrow>
      s' = logIdentityAction ''Identity Verified'' (emit (IdentityVerified p)
             (s\<lparr>identities := (identities s)(p :=
                 (identities s p)\<lparr>isVerified := True\<rparr>)\<rparr>)) \<and>
      identities s' = (identities s)(p := (identities s p)\<lparr>isVerified := True\<rparr>) \<and>
      events s' = events s @ [IdentityVerified p, IdentityActionLogged ''Identity Verified'']) \<and>
   (\<forall>s'. revokeIdentity p s = Inr s' \<longrightarrow>
      s' = logIdentityAction ''Identity Revoked'' (emit (IdentityRevoked p)
             (s\<lparr>identities := (identities s)(p :=
                 (identities s p)\<lparr>isVerified := False\<rparr>)\<rparr>)) \<and>
      identities s' = (identities s)(p := (identities s p)\<lparr>isVerified := False\<rparr>) \<and>
      events s' = events s @ [IdentityRevoked p, IdentityActionLogged ''Identity Revoked'']) \<and>
   (\<forall>c err. dispatch p c s = Inl err \<longrightarrow>
      events (transact p c s) = events s \<and> transact p c s = s)"
proof (intro conjI allI impI)
  fix c err
  assume f: "dispatch p c s = Inl err"
  then show "events (transact p c s) = events s"
    by (simp add: transact_def)
  from f show "transact p c s = s"
    by (simp add: transact_def)
qed (auto simp: op_defs split: if_splits)

theorem events_of_calls_witness:
  "(\<exists>s'. addIdentity bob ''Bob'' ''bob@example.com'' verified = Inr s' \<and>
      identities s' bob =
        \<lparr>user = bob, name = ''Bob'', email = ''bob@example.com'',
         isVerified = False, exists = True\<rparr> \<and>
      events s' = events verified @
        [IdentityAdded bob ''Bob'' ''bob@example.com'', IdentityActionLogged ''Identity Added'']) \<and>
   (\<exists>s'. updateIdentity alice ''Alice2'' ''a2@example.com'' verified = Inr s' \<and>
      identities s' alice =
        \<lparr>user = alice, name = ''Alice2'', email = ''a2@example.com'',
         isVerified = True, exists = True\<rparr> \<and>
      events s' = events verified @
        [IdentityUpdated alice ''Alice2'' ''a2@example.com'',
         IdentityActionLogged ''Identity Updated'']) \<and>
   (\<exists>s'. deleteIdentity alice verified = Inr s' \<and>
      identities s' alice = zero_Identity \<and>
      events s' = events verified @
        [IdentityDeleted alice, IdentityActionLogged ''Identity Deleted'']) \<and>
   (\<exists>s'. verifyIdentity alice registered = Inr s' \<and>
      identities s' alice =
        \<lparr>user = alice, name = ''Alice'', email = ''alice@example.com'',
         isVerified = True, exists = True\<rparr> \<and>
      events s' = events registered @
        [IdentityVerified alice, IdentityActionLogged ''Identity Verified'']) \<and>
   (\<exists>s'. revokeIdentity alice verified = Inr s' \<and>
      identities s' alice =
        \<lparr>user = alice, name = ''Alice'', email = ''alice@example.com'',
         isVerified = False, exists = True\<rparr> \<and>
      events s' = events verified @
        [IdentityRevoked alice, IdentityActionLogged ''Identity Revoked'']) \<and>
   dispatch bob VerifyIdentity verified = Inl NotFound \<and>
   events (transact bob VerifyIdentity verified) = events verified"
proof -
  note by_bob = events_of_calls [of bob "''Bob''" "''bob@example.com''" verified]
  note by_alice = events_of_calls [of alice "''Alice2''" "''a2@example.com''" verified]
  note on_registered = events_of_calls [of alice "''Alice2''" "''a2@example.com''" registered]
  obtain sa where a: "addIdentity bob ''Bob'' ''bob@example.com'' verified = Inr sa"
    by (simp add: op_defs verified_eq alice_neq_bob zero_Identity_def)
  obtain su where u: "updateIdentity alice ''Alice2'' ''a2@example.com'' verified = Inr su"
    by (simp add: op_defs verified_eq)
  obtain sd where d: "deleteIdentity alice verified = Inr sd"
    by (simp add: op_defs verified_eq)
  obtain sv where w: "verifyIdentity alice registered = Inr sv"
    by (simp add: op_defs registered_eq)
  obtain sr where k: "revokeIdentity alice verified = Inr sr"
    by (simp add: op_defs verified_eq)
  have f: "dispatch bob VerifyIdentity verified = Inl NotFound"
    by (simp add: op_defs verified_eq alice_neq_bob zero_Identity_def NotFound_def)
  have ia: "identities sa = (identities verified)(bob :=
        \<lparr>user = bob, name = ''Bob'', email = ''bob@example.com'',
         isVerified = False, exists = True\<rparr>)"
    and ea: "events sa = events verified @
      [IdentityAdded bob ''Bob'' ''bob@example.com'', IdentityActionLogged ''Identity Added'']"
    using by_bob a by blast+
  have iu: "identities su = (identities verified)(alice :=
        (identities verified alice)\<lparr>name := ''Alice2'', email := ''a2@example.com''\<rparr>)"
    and eu: "events su = events verified @
      [IdentityUpdated alice ''Alice2'' ''a2@example.com'',
       IdentityActionLogged ''Identity Updated'']"
    using by_alice u by blast+
  have idl: "identities sd = (identities verified)(alice := zero_Identity)"
    and ed: "events sd = events verified @
      [IdentityDeleted alice, IdentityActionLogged ''Identity Deleted'']"
    using by_alice d by blast+
  have iv: "identities sv = (identities registered)(alice :=
        (identities registered alice)\<lparr>isVerified := True\<rparr>)"
    and ev: "events sv = events registered @
      [IdentityVerified alice, IdentityActionLogged ''Identity Verified'']"
    using on_registered w by blast+
  have ir: "identities sr = (identities verified)(alice :=
        (identities verified alice)\<lparr>isVerified := False\<rparr>)"
    and er: "events sr = events verified @
      [IdentityRevoked alice, IdentityActionLogged ''Identity Revoked'']"
    using by_alice k by blast+
  have ef: "events (transact bob VerifyIdentity verified) = events verified"
    using by_bob f by blast
  have "identities sa bob =
      \<lparr>user = bob, name = ''Bob'', email = ''bob@example.com'',
       isVerified = False, exists = True\<rparr>"
    using ia by simp
  moreover have "identities su alice =
      \<lparr>user = alice, name = ''Alice2'', email = ''a2@example.com'',
       isVerified = True, exists = True\<rparr>"
    using iu by (simp add: verified_eq)
  moreover have "identities sd alice = zero_Identity"
    using idl by simp
  moreover have "identities sv alice =
      \<lparr>user = alice, name = ''Alice'', email = ''alice@example.com'',
       isVerified = True, exists = True\<rparr>"
    using iv by (simp add: registered_eq)
  moreover have "identities sr alice =
      \<lparr>user = alice, name = ''Alice'', email = ''alice@example.com'',
       isVerified = False, exists = True\<rparr>"
    using ir by (simp add: verified_eq)
  ultimately show ?thesis
    using a u d w k f ea eu ed ev er ef by blast
qed

subsection \<open>Deleting a record\<close>

text \<open>
  C7. For every caller \<open>p\<close> whose record has \<open>exists = true\<close>, \<open>deleteIdentity\<close> by \<open>p\<close>
  succeeds and resets the record of \<open>p\<close> to the absent state (the zero value). Afterwards
  \<open>getIdentity(p)\<close> and \<open>isIdentityVerified(p)\<close> fail with \<open>NotFound\<close>, a second
  \<open>deleteIdentity\<close> by \<open>p\<close> fails with \<open>NotFound\<close>, and an \<open>addIdentity\<close> by \<open>p\<close> succeeds
  again and gives a live record with \<open>isVerified = false\<close>.
\<close>

theorem deleteIdentity_resets:
  "exists (identities s p) \<Longrightarrow>
   \<exists>s'. deleteIdentity p s = Inr s' \<and>
        identities s' p = zero_Identity \<and>
        \<not> exists (identities s' p) \<and>
        getIdentity s' p = Inl NotFound \<and>
        isIdentityVerified s' p = Inl NotFound \<and>
        deleteIdentity p s' = Inl NotFound \<and>
        (\<exists>s''. addIdentity p n e s' = Inr s'' \<and>
              exists (identities s'' p) \<and>
              isVerified (identities s'' p) = False \<and>
              getIdentity s'' p =
                Inr \<lparr>user = p, name = n, email = e, isVerified = False, exists = True\<rparr>)"
  by (simp add: op_defs getIdentity_def isIdentityVerified_def NotFound_def zero_Identity_def)

theorem deleteIdentity_resets_witness:
  "exists (identities verified alice) \<and> isVerified (identities verified alice) \<and>
   (\<exists>s'. deleteIdentity alice verified = Inr s' \<and>
        identities s' alice = zero_Identity \<and>
        getIdentity s' alice = Inl NotFound \<and>
        isIdentityVerified s' alice = Inl NotFound \<and>
        deleteIdentity alice s' = Inl NotFound \<and>
        (\<exists>s''. addIdentity alice ''Alice'' ''alice@example.com'' s' = Inr s'' \<and>
              exists (identities s'' alice) \<and>
              isVerified (identities s'' alice) = False))"
proof -
  have h: "exists (identities verified alice)"
    by (simp add: verified_eq)
  have v: "isVerified (identities verified alice)"
    by (simp add: verified_eq)
  show ?thesis
    using h v deleteIdentity_resets [OF h, of "''Alice''" "''alice@example.com''"] by blast
qed

subsection \<open>Verifying and revoking\<close>

text \<open>
  C8. For every caller \<open>p\<close> whose record has \<open>exists = true\<close>, \<open>verifyIdentity\<close> followed by
  \<open>revokeIdentity\<close>, both by \<open>p\<close>, succeed and leave \<open>isVerified = false\<close> with \<open>name\<close> and
  \<open>email\<close> as they were before the two calls. \<open>verifyIdentity\<close> writes nothing to the
  storage but \<open>isVerified = true\<close> in the record of \<open>p\<close>, and \<open>revokeIdentity\<close> nothing but
  \<open>isVerified = false\<close> in the record of \<open>p\<close>.
\<close>

theorem verify_then_revoke:
  "exists (identities s p) \<Longrightarrow>
   \<exists>s1 s2. verifyIdentity p s = Inr s1 \<and> revokeIdentity p s1 = Inr s2 \<and>
        isVerified (identities s1 p) = True \<and>
        isVerified (identities s2 p) = False \<and>
        name (identities s2 p) = name (identities s p) \<and>
        email (identities s2 p) = email (identities s p) \<and>
        identities s1 = (identities s)(p := (identities s p)\<lparr>isVerified := True\<rparr>) \<and>
        identities s2 = (identities s1)(p := (identities s1 p)\<lparr>isVerified := False\<rparr>) \<and>
        identities s2 = (identities s)(p := (identities s p)\<lparr>isVerified := False\<rparr>)"
  by (simp add: op_defs)

theorem verify_then_revoke_witness:
  "exists (identities registered alice) \<and>
   (\<exists>s1 s2. verifyIdentity alice registered = Inr s1 \<and> revokeIdentity alice s1 = Inr s2 \<and>
        isVerified (identities s1 alice) = True \<and>
        isVerified (identities s2 alice) = False \<and>
        name (identities s2 alice) = ''Alice'' \<and>
        email (identities s2 alice) = ''alice@example.com'')"
proof -
  have h: "exists (identities registered alice)"
    by (simp add: registered_eq)
  have n: "name (identities registered alice) = ''Alice''"
    by (simp add: registered_eq)
  have m: "email (identities registered alice) = ''alice@example.com''"
    by (simp add: registered_eq)
  obtain s1 s2 where
    "verifyIdentity alice registered = Inr s1" "revokeIdentity alice s1 = Inr s2"
    "isVerified (identities s1 alice) = True" "isVerified (identities s2 alice) = False"
    "name (identities s2 alice) = name (identities registered alice)"
    "email (identities s2 alice) = email (identities registered alice)"
    using verify_then_revoke [OF h] by blast
  with h n m show ?thesis by metis
qed

subsection \<open>The public getter of the mapping\<close>

text \<open>
  C9. Besides the guarded queries \<open>getIdentity\<close> and \<open>isIdentityVerified\<close>, the contract has
  the unguarded public getter of the mapping \<open>identities\<close>. For every principal \<open>p\<close> the
  getter never fails and returns the stored fields of \<open>p\<close>, whatever they are. When, in a
  reachable state, \<open>p\<close> has no live record, the getter returns the default record (zero
  address, empty name and email, \<open>isVerified = false\<close>, \<open>exists = false\<close>) where the
  guarded queries fail with \<open>NotFound\<close>.
\<close>

theorem identities_getter_unguarded:
  "identities_getter s p =
     Inr (user (identities s p), name (identities s p), email (identities s p),
          isVerified (identities s p), exists (identities s p)) \<and>
   (\<forall>err. identities_getter s p \<noteq> Inl err) \<and>
   (reachable s \<longrightarrow> \<not> exists (identities s p) \<longrightarrow>
      identities_getter s p = Inr (0, [], [], False, False) \<and>
      getIdentity s p = Inl NotFound \<and>
      isIdentityVerified s p = Inl NotFound)"
proof -
  have "identities s p = zero_Identity" if "reachable s" and "\<not> exists (identities s p)"
    using absent_zero_reachable [OF that(1)] that(2) by (simp add: absent_zero_def)
  then show ?thesis
    by (auto simp: identities_getter_def getIdentity_def isIdentityVerified_def
        NotFound_def zero_Identity_def Let_def)
qed

theorem identities_getter_unguarded_witness:
  "reachable deleted \<and> \<not> exists (identities deleted alice) \<and>
   identities_getter deleted alice = Inr (0, [], [], False, False) \<and>
   getIdentity deleted alice = Inl NotFound \<and>
   isIdentityVerified deleted alice = Inl NotFound \<and>
   identities_getter verified alice =
     Inr (alice, ''Alice'', ''alice@example.com'', True, True)"
proof -
  have r: "reachable deleted" by (rule reachable_examples)
  have a: "\<not> exists (identities deleted alice)"
    by (simp add: deleted_eq zero_Identity_def)
  have "identities_getter verified alice =
      Inr (alice, ''Alice'', ''alice@example.com'', True, True)"
    using identities_getter_unguarded [of verified alice] by (simp add: verified_eq)
  then show ?thesis
    using r a identities_getter_unguarded [of deleted alice] by blast
qed

subsection \<open>Invariant: the stored principal is the key\<close>



end
